theory Spec2Isabelle
  imports Main
begin

section \<open>Values, objects and thrown errors\<close>

text \<open>
  The authentication service (\<^verbatim>\<open>AutenticacaoService\<close>, the second module of
  \<^verbatim>\<open>src/backend/controllers/ongController.js\<close>) is JavaScript. The values it reads
  and writes are primitive values, and its objects are read by property name. A
  primitive value is modelled by \<open>jsval\<close>; on such values the operator
  \<^verbatim>\<open>===\<close> is equality. An object is an association list from property names to
  values, in the order in which the properties were written; reading a property that
  the object does not have gives \<^verbatim>\<open>undefined\<close>.
\<close>

datatype jsval = JUndefined | JNull | JBool bool | JNum int | JStr string

type_synonym jsobj = "(string \<times> jsval) list"

definition campo :: "jsobj \<Rightarrow> string \<Rightarrow> jsval" where
  "campo obj k = (case map_of obj k of None \<Rightarrow> JUndefined | Some v \<Rightarrow> v)"

definition keys :: "jsobj \<Rightarrow> string list" where
  "keys obj = map fst obj"

text \<open>
  A thrown value is an error object: the name of its class and its message.
  \<^verbatim>\<open>new Error(m)\<close> is \<open>Error m\<close>. Strings are byte strings here; the letter
  a-acute of the two Portuguese messages is written as its two UTF-8 bytes.
\<close>

datatype exn = Exn string string

definition Error :: "string \<Rightarrow> exn" where
  "Error m = Exn ''Error'' m"

definition msg_login :: string where
  "msg_login = ''Email ou senha inv'' @ [CHR 0xC3, CHR 0xA1] @ ''lidos''"

definition msg_refresh :: string where
  "msg_refresh = ''Refresh Token inv'' @ [CHR 0xC3, CHR 0xA1] @ ''lido''"

section \<open>The collaborators of the service\<close>

text \<open>
  An \<^verbatim>\<open>async\<close> method runs on the state of the world outside the service (the
  database, the clock) and either rejects with a thrown value or resolves with a result;
  it hands the state on.
\<close>

type_synonym ('a, 's) async = "'s \<Rightarrow> (exn + 'a) \<times> 's"

text \<open>
  \<^verbatim>\<open>AutenticacaoRepository\<close> (\<^verbatim>\<open>repositories/autenticacaoRepository.js\<close>) is not
  among the sources; the service calls three of its methods, which are parameters
  here. \<open>buscarPorEmail\<close> resolves with a user row or with \<^verbatim>\<open>null\<close> (\<open>None\<close>).
\<close>

record 's repo =
  buscarPorEmail :: "jsval \<Rightarrow> (jsobj option, 's) async"
  gerarToken :: "jsobj \<Rightarrow> (string, 's) async"
  gerarRefreshToken :: "jsobj \<Rightarrow> (string, 's) async"

text \<open>
  \<^verbatim>\<open>verify\<close> of the \<^verbatim>\<open>jsonwebtoken\<close> package is a parameter as well: given a token
  and a secret it throws or returns the decoded payload. The service reads
  \<^verbatim>\<open>decoded.usuario.email\<close> only: \<open>usuario\<close> is \<open>None\<close> when the payload has no
  such member (reading \<^verbatim>\<open>.email\<close> of it then throws a \<^verbatim>\<open>TypeError\<close>), and the
  object otherwise (a member that is a primitive value reads like the empty object).
\<close>

record decoded =
  usuario :: "jsobj option"

type_synonym verifier = "string \<Rightarrow> string option \<Rightarrow> exn + decoded"

text \<open>\<^verbatim>\<open>process.env\<close>: the variable the service reads, \<open>None\<close> when it is not set.\<close>

record env =
  SECRET_REFRESH :: "string option"

section \<open>The service\<close>

text \<open>The object both methods return: \<^verbatim>\<open>{ token, usuario, refreshToken }\<close>.\<close>

record sessao =
  token :: string
  usuario :: jsobj
  refreshToken :: string

text \<open>
  The object literal \<^verbatim>\<open>{ id: usuario.id, email: usuario.email, nome: usuario.nome,
  perfil: usuario.perfil }\<close> of lines 228-233 and 249-254.
\<close>

definition perfil_publico :: "jsobj \<Rightarrow> jsobj" where
  "perfil_publico u =
     [(''id'', campo u ''id''), (''email'', campo u ''email''),
      (''nome'', campo u ''nome''), (''perfil'', campo u ''perfil'')]"

text \<open>
  The \<^verbatim>\<open>return { token: await ..., usuario: {...}, refreshToken: await ... }\<close> that
  both methods share (lines 226-235 and 247-256): the access token is generated first,
  then the refresh token; the first rejection ends the evaluation.
\<close>

definition montar_sessao :: "'s repo \<Rightarrow> jsobj \<Rightarrow> (sessao, 's) async" where
  "montar_sessao r u s =
     (case gerarToken r u s of
        (Inl e, s1) \<Rightarrow> (Inl e, s1)
      | (Inr t, s1) \<Rightarrow>
          (case gerarRefreshToken r u s1 of
             (Inl e, s2) \<Rightarrow> (Inl e, s2)
           | (Inr rt, s2) \<Rightarrow>
               (Inr \<lparr>token = t, usuario = perfil_publico u, refreshToken = rt\<rparr>, s2)))"

text \<open>
  \<^verbatim>\<open>login(credenciais)\<close>, lines 222-239. A method resolves with an object or with
  \<^verbatim>\<open>undefined\<close> (\<open>None\<close>), or rejects.
\<close>

definition login :: "'s repo \<Rightarrow> jsobj \<Rightarrow> (sessao option, 's) async" where
  "login r credenciais s =
     (case buscarPorEmail r (campo credenciais ''email'') s of
        (Inl e, s1) \<Rightarrow> (Inl e, s1)
      | (Inr None, s1) \<Rightarrow> (Inl (Error msg_login), s1)
      | (Inr (Some u), s1) \<Rightarrow>
          if campo u ''senha'' = campo credenciais ''senha''
          then (case montar_sessao r u s1 of
                  (Inl e, s2) \<Rightarrow> (Inl e, s2)
                | (Inr b, s2) \<Rightarrow> (Inr (Some b), s2))
          else (Inl (Error msg_login), s1))"

text \<open>
  The statements inside \<^verbatim>\<open>try { ... }\<close> of \<^verbatim>\<open>refreshToken\<close>, lines 243-257. When
  the user is not found the \<^verbatim>\<open>if\<close> has no \<^verbatim>\<open>else\<close>: the block ends without a
  \<^verbatim>\<open>return\<close>.
\<close>

definition refreshToken_try ::
  "verifier \<Rightarrow> env \<Rightarrow> 's repo \<Rightarrow> string \<Rightarrow> (sessao option, 's) async" where
  "refreshToken_try verify ev r rt s =
     (case verify rt (SECRET_REFRESH ev) of
        Inl e \<Rightarrow> (Inl e, s)
      | Inr d \<Rightarrow>
          (case decoded.usuario d of
             None \<Rightarrow> (Inl (Exn ''TypeError'' ''Cannot read properties of undefined''), s)
           | Some p \<Rightarrow>
               (case buscarPorEmail r (campo p ''email'') s of
                  (Inl e, s1) \<Rightarrow> (Inl e, s1)
                | (Inr None, s1) \<Rightarrow> (Inr None, s1)
                | (Inr (Some u), s1) \<Rightarrow>
                    (case montar_sessao r u s1 of
                       (Inl e, s2) \<Rightarrow> (Inl e, s2)
                     | (Inr b, s2) \<Rightarrow> (Inr (Some b), s2)))))"

text \<open>
  \<^verbatim>\<open>refreshToken(refreshToken)\<close>, lines 241-261: whatever the block throws is caught
  and replaced by \<open>Error msg_refresh\<close>; after the block the
  method ends, resolving with \<^verbatim>\<open>undefined\<close>.
\<close>

definition refreshToken ::
  "verifier \<Rightarrow> env \<Rightarrow> 's repo \<Rightarrow> string \<Rightarrow> (sessao option, 's) async" where
  "refreshToken verify ev r rt s =
     (case refreshToken_try verify ev r rt s of
        (Inl e, s1) \<Rightarrow> (Inl (Error msg_refresh), s1)
      | (Inr v, s1) \<Rightarrow> (Inr v, s1))"

section \<open>A repository and a verifier to run the service on\<close>

text \<open>
  An in-memory repository for the examples: the state is the table of user rows, the
  lookup returns the first row with the given email and leaves the table as it is, and
  the two issuing functions are parameters.
\<close>

definition repositorio :: "(jsobj \<Rightarrow> string) \<Rightarrow> (jsobj \<Rightarrow> string) \<Rightarrow> (jsobj list) repo" where
  "repositorio emitir emitir_refresh =
     \<lparr>buscarPorEmail = (\<lambda>e tab. (Inr (find (\<lambda>u. campo u ''email'' = e) tab), tab)),
      gerarToken = (\<lambda>u tab. (Inr (emitir u), tab)),
      gerarRefreshToken = (\<lambda>u tab. (Inr (emitir_refresh u), tab))\<rparr>"

text \<open>A table with one user, tokens that name their kind and the user's email.\<close>

definition ana :: jsobj where
  "ana = [(''id'', JNum 7), (''email'', JStr ''ana@ong.org''), (''nome'', JStr ''Ana''),
          (''perfil'', JStr ''admin''), (''senha'', JStr ''s3nha'')]"

definition emitir_exemplo :: "string \<Rightarrow> jsobj \<Rightarrow> string" where
  "emitir_exemplo kind u = kind @ (case campo u ''email'' of JStr e \<Rightarrow> e | _ \<Rightarrow> [])"

definition repo_exemplo :: "(jsobj list) repo" where
  "repo_exemplo = repositorio (emitir_exemplo ''access:'') (emitir_exemplo ''refresh:'')"

definition env_exemplo :: env where
  "env_exemplo = \<lparr>SECRET_REFRESH = Some ''r3fresh''\<rparr>"

text \<open>
  A verifier that accepts one refresh token, issued when Ana still had the profile
  \<^verbatim>\<open>staff\<close>, and rejects every other string the way \<^verbatim>\<open>jsonwebtoken\<close> does.
\<close>

definition verify_exemplo :: verifier where
  "verify_exemplo t secret =
     (if secret \<noteq> Some ''r3fresh'' then Inl (Exn ''JsonWebTokenError'' ''invalid signature'')
      else if t = ''refresh:ana@ong.org''
        then Inr \<lparr>decoded.usuario =
               Some [(''id'', JNum 7), (''email'', JStr ''ana@ong.org''),
                     (''nome'', JStr ''Ana''), (''perfil'', JStr ''staff'')]\<rparr>
      else if t = ''expired'' then Inl (Exn ''TokenExpiredError'' ''jwt expired'')
      else Inl (Exn ''JsonWebTokenError'' ''jwt malformed''))"

text \<open>The same repository while the database cannot be reached: the lookup rejects.\<close>

definition repo_sem_banco :: "(jsobj list) repo" where
  "repo_sem_banco =
     repo_exemplo\<lparr>buscarPorEmail :=
       (\<lambda>e tab. (Inl (Exn ''SequelizeConnectionError'' ''connect ECONNREFUSED''), tab))\<rparr>"

section \<open>The repository as the spec describes it\<close>

text \<open>
  Modelled from the spec: ClaimsPayload (section 3), the "subset of UserRecord exposed
  inside a token - id, email, display name, role", which "never includes the
  credential secret", built from the UserRecord (section 4.2, step 3). In the code the
  tokens are built inside \<^verbatim>\<open>AutenticacaoRepository\<close>, whose file is not among the
  sources: the service hands the whole row to \<^verbatim>\<open>gerarToken\<close> and
  \<^verbatim>\<open>gerarRefreshToken\<close>.
\<close>

definition claims_payload :: "jsobj \<Rightarrow> jsobj" where
  "claims_payload u =
     [(''id'', campo u ''id''), (''email'', campo u ''email''),
      (''nome'', campo u ''nome''), (''perfil'', campo u ''perfil'')]"

text \<open>
  Modelled from the spec: the configuration surface (section 6), "two secret values
  (accessSecret, refreshSecret) and two TTL durations".
\<close>

record config =
  accessSecret :: string
  refreshSecret :: string
  accessTtl :: nat
  refreshTtl :: nat

text \<open>
  Modelled from the spec: \<^verbatim>\<open>issue(claims, secret, ttl) -> tokenString\<close> (section 4.1)
  "serializes claims plus an issued-at timestamp and an expiry (issued-at + ttl),
  computes a cryptographic signature over the serialized content using secret, and
  returns the combined, self-describing string". The serialisation and the signature
  are a parameter, from the claims, the issued-at time, the expiry and the secret to
  the string.
\<close>

type_synonym codec = "jsobj \<Rightarrow> nat \<Rightarrow> nat \<Rightarrow> string \<Rightarrow> string"

definition issue :: "codec \<Rightarrow> nat \<Rightarrow> jsobj \<Rightarrow> string \<Rightarrow> nat \<Rightarrow> string" where
  "issue assinar agora claims secret ttl = assinar claims agora (agora + ttl) secret"

text \<open>
  The world outside the service, for the repository below: the rows of the credential
  store, the clock, and a record of the calls the repository has received, in order,
  each with its argument.
\<close>

datatype chamada = Busca jsval | Emite jsobj | EmiteRefresh jsobj

record mundo =
  usuarios :: "jsobj list"
  relogio :: nat
  chamadas :: "chamada list"

text \<open>
  Modelled from the spec: the three methods of the absent \<^verbatim>\<open>AutenticacaoRepository\<close>.
  The Credential Store "looks up a user record by email"
  (\<^verbatim>\<open>findByEmail(email) -> UserRecord?\<close>, the email "unique, case-sensitive as
  stored"); an access token is issued from the claims payload of the row with the access
  secret and the short TTL, a refresh token with the refresh secret and the long TTL
  (section 4.2, steps 3 and 4); nothing is stored ("no server-side record kept"). Each
  method notes its call in \<open>chamadas\<close> and writes nothing else.
\<close>

definition repositorio_spec :: "codec \<Rightarrow> config \<Rightarrow> mundo repo" where
  "repositorio_spec assinar cfg =
     \<lparr>buscarPorEmail = (\<lambda>e w.
        (Inr (find (\<lambda>u. campo u ''email'' = e) (usuarios w)),
         w\<lparr>chamadas := chamadas w @ [Busca e]\<rparr>)),
      gerarToken = (\<lambda>u w.
        (Inr (issue assinar (relogio w) (claims_payload u) (accessSecret cfg) (accessTtl cfg)),
         w\<lparr>chamadas := chamadas w @ [Emite u]\<rparr>)),
      gerarRefreshToken = (\<lambda>u w.
        (Inr (issue assinar (relogio w) (claims_payload u) (refreshSecret cfg) (refreshTtl cfg)),
         w\<lparr>chamadas := chamadas w @ [EmiteRefresh u]\<rparr>))\<rparr>"

text \<open>
  A codec, a configuration and a world for the examples: the token string lists the
  names of the claims it carries, then the secret it was signed with.
\<close>

definition assinar_exemplo :: codec where
  "assinar_exemplo claims iat expira secret = concat (map (\<lambda>k. k @ '';'') (keys claims)) @ secret"

definition cfg_exemplo :: config where
  "cfg_exemplo = \<lparr>accessSecret = ''acc3ss'', refreshSecret = ''r3fresh'',
                   accessTtl = 3600, refreshTtl = 604800\<rparr>"

definition mundo_exemplo :: mundo where
  "mundo_exemplo = \<lparr>usuarios = [ana], relogio = 1000, chamadas = []\<rparr>"

section \<open>What the methods compute\<close>

lemma montar_sessao_Inr:
  "montar_sessao r u s = (Inr b, s') \<longleftrightarrow>
     (\<exists>t s1 rt. gerarToken r u s = (Inr t, s1) \<and> gerarRefreshToken r u s1 = (Inr rt, s') \<and>
        b = \<lparr>token = t, usuario = perfil_publico u, refreshToken = rt\<rparr>)"
  by (auto simp: montar_sessao_def split: prod.splits sum.splits)

lemma montar_sessao_Inl:
  "montar_sessao r u s = (Inl e, s') \<longleftrightarrow>
     (gerarToken r u s = (Inl e, s') \<or>
      (\<exists>t s1. gerarToken r u s = (Inr t, s1) \<and> gerarRefreshToken r u s1 = (Inl e, s')))"
  by (auto simp: montar_sessao_def split: prod.splits sum.splits)

lemma login_Some:
  "login r c s = (Inr (Some b), s') \<longleftrightarrow>
     (\<exists>u s1. buscarPorEmail r (campo c ''email'') s = (Inr (Some u), s1) \<and>
        campo u ''senha'' = campo c ''senha'' \<and> montar_sessao r u s1 = (Inr b, s'))"
  by (auto simp: login_def split: prod.splits sum.splits option.splits)

lemma login_not_undefined: "fst (login r c s) \<noteq> Inr None"
  by (auto simp: login_def split: prod.splits sum.splits option.splits)

lemma refreshToken_try_Some:
  "refreshToken_try verify ev r rt s = (Inr (Some b), s') \<longleftrightarrow>
     (\<exists>d p u s1. verify rt (SECRET_REFRESH ev) = Inr d \<and> decoded.usuario d = Some p \<and>
        buscarPorEmail r (campo p ''email'') s = (Inr (Some u), s1) \<and>
        montar_sessao r u s1 = (Inr b, s'))"
  by (auto simp: refreshToken_try_def split: prod.splits sum.splits option.splits)

lemma refreshToken_Inr:
  "refreshToken verify ev r rt s = (Inr v, s') \<longleftrightarrow>
     refreshToken_try verify ev r rt s = (Inr v, s')"
  by (auto simp: refreshToken_def split: prod.splits sum.splits)

lemma refreshToken_Inl:
  "refreshToken verify ev r rt s = (Inl x, s') \<longleftrightarrow>
     x = Error msg_refresh \<and> (\<exists>e. refreshToken_try verify ev r rt s = (Inl e, s'))"
  by (auto simp: refreshToken_def split: prod.splits sum.splits)

lemma repositorio_spec_simps:
  "buscarPorEmail (repositorio_spec a cfg) e w =
     (Inr (find (\<lambda>u. campo u ''email'' = e) (usuarios w)), w\<lparr>chamadas := chamadas w @ [Busca e]\<rparr>)"
  "gerarToken (repositorio_spec a cfg) u w =
     (Inr (issue a (relogio w) (claims_payload u) (accessSecret cfg) (accessTtl cfg)),
      w\<lparr>chamadas := chamadas w @ [Emite u]\<rparr>)"
  "gerarRefreshToken (repositorio_spec a cfg) u w =
     (Inr (issue a (relogio w) (claims_payload u) (refreshSecret cfg) (refreshTtl cfg)),
      w\<lparr>chamadas := chamadas w @ [EmiteRefresh u]\<rparr>)"
  by (simp_all add: repositorio_spec_def)

lemma montar_sessao_spec:
  "montar_sessao (repositorio_spec a cfg) u w =
     (Inr \<lparr>token = issue a (relogio w) (claims_payload u) (accessSecret cfg) (accessTtl cfg),
           usuario = perfil_publico u,
           refreshToken = issue a (relogio w) (claims_payload u) (refreshSecret cfg) (refreshTtl cfg)\<rparr>,
      w\<lparr>chamadas := chamadas w @ [Emite u, EmiteRefresh u]\<rparr>)"
  by (simp add: montar_sessao_def repositorio_spec_simps)

lemma claims_payload_keys:
  "keys (claims_payload u) = [''id'', ''email'', ''nome'', ''perfil'']"
  "''senha'' \<notin> set (keys (claims_payload u))"
  "claims_payload u = perfil_publico u"
  by (simp_all add: claims_payload_def perfil_publico_def keys_def)

section \<open>Login\<close>

text \<open>
  C2. When the lookup by the presented email resolves with the stored row \<open>U\<close>, the
  presented \<^verbatim>\<open>senha\<close> equals the stored one and the repository issues the two
  tokens, \<open>login\<close> resolves with a session holding the access token, the refresh
  token and a profile whose \<^verbatim>\<open>id\<close>, \<^verbatim>\<open>email\<close>, \<^verbatim>\<open>nome\<close> and
  \<^verbatim>\<open>perfil\<close> are those of \<open>U\<close>.
\<close>

theorem login_matching_credential:
  assumes "buscarPorEmail r (campo c ''email'') s = (Inr (Some U), s1)"
    and "campo c ''senha'' = campo U ''senha''"
    and "gerarToken r U s1 = (Inr t, s2)"
    and "gerarRefreshToken r U s2 = (Inr rt, s3)"
  shows "login r c s =
    (Inr (Some \<lparr>token = t,
                usuario = [(''id'', campo U ''id''), (''email'', campo U ''email''),
                           (''nome'', campo U ''nome''), (''perfil'', campo U ''perfil'')],
                refreshToken = rt\<rparr>), s3)"
  using assms by (simp add: login_def montar_sessao_def perfil_publico_def)

theorem login_matching_credential_witness:
  "buscarPorEmail repo_exemplo (campo [(''email'', JStr ''ana@ong.org''), (''senha'', JStr ''s3nha'')] ''email'') [ana]
     = (Inr (Some ana), [ana]) \<and>
   campo [(''email'', JStr ''ana@ong.org''), (''senha'', JStr ''s3nha'')] ''senha'' = campo ana ''senha'' \<and>
   gerarToken repo_exemplo ana [ana] = (Inr ''access:ana@ong.org'', [ana]) \<and>
   gerarRefreshToken repo_exemplo ana [ana] = (Inr ''refresh:ana@ong.org'', [ana]) \<and>
   login repo_exemplo [(''email'', JStr ''ana@ong.org''), (''senha'', JStr ''s3nha'')] [ana] =
     (Inr (Some \<lparr>token = ''access:ana@ong.org'',
                 usuario = [(''id'', JNum 7), (''email'', JStr ''ana@ong.org''),
                            (''nome'', JStr ''Ana''), (''perfil'', JStr ''admin'')],
                 refreshToken = ''refresh:ana@ong.org''\<rparr>), [ana])"
proof -
  let ?c = "[(''email'', JStr ''ana@ong.org''), (''senha'', JStr ''s3nha'')]"
  have h1: "buscarPorEmail repo_exemplo (campo ?c ''email'') [ana] = (Inr (Some ana), [ana])"
    by (simp add: repo_exemplo_def repositorio_def campo_def ana_def)
  have h2: "campo ?c ''senha'' = campo ana ''senha''"
    by (simp add: campo_def ana_def)
  have h3: "gerarToken repo_exemplo ana [ana] = (Inr ''access:ana@ong.org'', [ana])"
    by (simp add: repo_exemplo_def repositorio_def emitir_exemplo_def campo_def ana_def)
  have h4: "gerarRefreshToken repo_exemplo ana [ana] = (Inr ''refresh:ana@ong.org'', [ana])"
    by (simp add: repo_exemplo_def repositorio_def emitir_exemplo_def campo_def ana_def)
  have v: "campo ana ''id'' = JNum 7" "campo ana ''email'' = JStr ''ana@ong.org''"
    "campo ana ''nome'' = JStr ''Ana''" "campo ana ''perfil'' = JStr ''admin''"
    by (simp_all add: campo_def ana_def)
  show ?thesis
    using login_matching_credential [OF h1 h2 h3 h4] h1 h2 h3 h4 by (simp only: v simp_thms)
qed

text \<open>
  C3. A login for which the lookup finds no row, and a login for which it finds a row
  whose \<^verbatim>\<open>senha\<close> differs from the presented one, reject with one and the same
  error, \<open>Error msg_login\<close>.
\<close>

theorem login_failure_uniform:
  assumes "buscarPorEmail r (campo c ''email'') s = (Inr None, s1) \<or>
     (\<exists>u. buscarPorEmail r (campo c ''email'') s = (Inr (Some u), s1) \<and>
          campo u ''senha'' \<noteq> campo c ''senha'')"
  shows "login r c s = (Inl (Error msg_login), s1)"
  using assms by (auto simp: login_def)

theorem login_failure_uniform_witness:
  "buscarPorEmail repo_exemplo (campo [(''email'', JStr ''bia@ong.org''), (''senha'', JStr ''s3nha'')] ''email'') [ana]
     = (Inr None, [ana]) \<and>
   login repo_exemplo [(''email'', JStr ''bia@ong.org''), (''senha'', JStr ''s3nha'')] [ana]
     = (Inl (Error msg_login), [ana]) \<and>
   buscarPorEmail repo_exemplo (campo [(''email'', JStr ''ana@ong.org''), (''senha'', JStr ''errada'')] ''email'') [ana]
     = (Inr (Some ana), [ana]) \<and>
   campo ana ''senha'' \<noteq> campo [(''email'', JStr ''ana@ong.org''), (''senha'', JStr ''errada'')] ''senha'' \<and>
   login repo_exemplo [(''email'', JStr ''ana@ong.org''), (''senha'', JStr ''errada'')] [ana]
     = (Inl (Error msg_login), [ana])"
proof -
  let ?c1 = "[(''email'', JStr ''bia@ong.org''), (''senha'', JStr ''s3nha'')]"
  let ?c2 = "[(''email'', JStr ''ana@ong.org''), (''senha'', JStr ''errada'')]"
  have a: "buscarPorEmail repo_exemplo (campo ?c1 ''email'') [ana] = (Inr None, [ana])"
    by (simp add: repo_exemplo_def repositorio_def campo_def ana_def)
  have b: "buscarPorEmail repo_exemplo (campo ?c2 ''email'') [ana] = (Inr (Some ana), [ana])"
    by (simp add: repo_exemplo_def repositorio_def campo_def ana_def)
  have d: "campo ana ''senha'' \<noteq> campo ?c2 ''senha''"
    by (simp add: campo_def ana_def)
  from a have 1: "login repo_exemplo ?c1 [ana] = (Inl (Error msg_login), [ana])"
    by (rule login_failure_uniform [OF disjI1])
  from b d have "\<exists>u. buscarPorEmail repo_exemplo (campo ?c2 ''email'') [ana] = (Inr (Some u), [ana]) \<and>
      campo u ''senha'' \<noteq> campo ?c2 ''senha''"
    by blast
  then have 2: "login repo_exemplo ?c2 [ana] = (Inl (Error msg_login), [ana])"
    by (rule login_failure_uniform [OF disjI2])
  from a 1 b d 2 show ?thesis by (intro conjI)
qed

text \<open>
  C10. Provided the repository issues both tokens for the row the lookup finds, \<open>login\<close>
  resolves with a session exactly when the lookup by the presented email resolves with
  a row whose \<^verbatim>\<open>senha\<close> is strictly equal to the presented one; in every other case
  it rejects; it never resolves with \<^verbatim>\<open>undefined\<close>, and a session it resolves with
  has its three members, built from the row found.
\<close>

theorem login_succeeds_iff:
  assumes "\<And>u s1. buscarPorEmail r (campo c ''email'') s = (Inr (Some u), s1) \<Longrightarrow>
             \<exists>t s2 rt s3. gerarToken r u s1 = (Inr t, s2) \<and> gerarRefreshToken r u s2 = (Inr rt, s3)"
  shows "((\<exists>b. fst (login r c s) = Inr (Some b)) =
            (\<exists>u s1. buscarPorEmail r (campo c ''email'') s = (Inr (Some u), s1) \<and>
               campo u ''senha'' = campo c ''senha'')) \<and>
         ((\<exists>e. fst (login r c s) = Inl e) =
            (\<not> (\<exists>u s1. buscarPorEmail r (campo c ''email'') s = (Inr (Some u), s1) \<and>
               campo u ''senha'' = campo c ''senha''))) \<and>
         fst (login r c s) \<noteq> Inr None \<and>
         (\<forall>b. fst (login r c s) = Inr (Some b) =
            (\<exists>u s1 t s2 rt s3. buscarPorEmail r (campo c ''email'') s = (Inr (Some u), s1) \<and>
               campo u ''senha'' = campo c ''senha'' \<and>
               gerarToken r u s1 = (Inr t, s2) \<and> gerarRefreshToken r u s2 = (Inr rt, s3) \<and>
               b = \<lparr>token = t, usuario = perfil_publico u, refreshToken = rt\<rparr>))"
proof (intro conjI allI)
  let ?match = "\<exists>u s1. buscarPorEmail r (campo c ''email'') s = (Inr (Some u), s1) \<and>
               campo u ''senha'' = campo c ''senha''"
  have emits: "\<exists>b s'. montar_sessao r u s1 = (Inr b, s')"
    if "buscarPorEmail r (campo c ''email'') s = (Inr (Some u), s1)" for u s1
    using assms [OF that] unfolding montar_sessao_Inr by blast
  show ok: "(\<exists>b. fst (login r c s) = Inr (Some b)) = ?match"
  proof
    assume "\<exists>b. fst (login r c s) = Inr (Some b)"
    then obtain b where "login r c s = (Inr (Some b), snd (login r c s))"
      by (metis prod.collapse)
    then show ?match unfolding login_Some by blast
  next
    assume ?match
    then obtain u s1 where u: "buscarPorEmail r (campo c ''email'') s = (Inr (Some u), s1)"
      "campo u ''senha'' = campo c ''senha''" by blast
    obtain b s' where "montar_sessao r u s1 = (Inr b, s')" using emits [OF u(1)] by blast
    with u have "login r c s = (Inr (Some b), s')" unfolding login_Some by blast
    then show "\<exists>b. fst (login r c s) = Inr (Some b)" by (metis fst_conv)
  qed
  show nu: "fst (login r c s) \<noteq> Inr None" by (rule login_not_undefined)
  show "(\<exists>e. fst (login r c s) = Inl e) = (\<not> ?match)"
  proof (cases "fst (login r c s)")
    case (Inl e)
    then show ?thesis using ok by auto
  next
    case (Inr v)
    then show ?thesis using ok nu by (cases v) auto
  qed
  show "fst (login r c s) = Inr (Some b) =
          (\<exists>u s1 t s2 rt s3. buscarPorEmail r (campo c ''email'') s = (Inr (Some u), s1) \<and>
             campo u ''senha'' = campo c ''senha'' \<and>
             gerarToken r u s1 = (Inr t, s2) \<and> gerarRefreshToken r u s2 = (Inr rt, s3) \<and>
             b = \<lparr>token = t, usuario = perfil_publico u, refreshToken = rt\<rparr>)" for b
  proof
    assume "fst (login r c s) = Inr (Some b)"
    then have "login r c s = (Inr (Some b), snd (login r c s))" by (metis prod.collapse)
    then show "\<exists>u s1 t s2 rt s3. buscarPorEmail r (campo c ''email'') s = (Inr (Some u), s1) \<and>
             campo u ''senha'' = campo c ''senha'' \<and>
             gerarToken r u s1 = (Inr t, s2) \<and> gerarRefreshToken r u s2 = (Inr rt, s3) \<and>
             b = \<lparr>token = t, usuario = perfil_publico u, refreshToken = rt\<rparr>"
      unfolding login_Some montar_sessao_Inr by blast
  next
    assume "\<exists>u s1 t s2 rt s3. buscarPorEmail r (campo c ''email'') s = (Inr (Some u), s1) \<and>
             campo u ''senha'' = campo c ''senha'' \<and>
             gerarToken r u s1 = (Inr t, s2) \<and> gerarRefreshToken r u s2 = (Inr rt, s3) \<and>
             b = \<lparr>token = t, usuario = perfil_publico u, refreshToken = rt\<rparr>"
    then obtain s' where "login r c s = (Inr (Some b), s')"
      unfolding login_Some montar_sessao_Inr by blast
    then show "fst (login r c s) = Inr (Some b)" by simp
  qed
qed

theorem login_succeeds_iff_witness:
  "fst (login repo_exemplo [(''email'', JStr ''ana@ong.org''), (''senha'', JStr ''s3nha'')] [ana]) =
     Inr (Some \<lparr>token = ''access:ana@ong.org'', usuario = perfil_publico ana,
                refreshToken = ''refresh:ana@ong.org''\<rparr>) \<and>
   (\<exists>e. fst (login repo_exemplo [(''email'', JStr ''ana@ong.org''), (''senha'', JStr ''S3NHA'')] [ana]) = Inl e) \<and>
   (\<exists>e. fst (login repo_exemplo [(''email'', JStr ''bia@ong.org''), (''senha'', JStr ''s3nha'')] [ana]) = Inl e)"
proof -
  let ?ok = "[(''email'', JStr ''ana@ong.org''), (''senha'', JStr ''s3nha'')]"
  let ?bad = "[(''email'', JStr ''ana@ong.org''), (''senha'', JStr ''S3NHA'')]"
  let ?who = "[(''email'', JStr ''bia@ong.org''), (''senha'', JStr ''s3nha'')]"
  have emits: "\<exists>t s2 rt s3. gerarToken repo_exemplo u s1 = (Inr t, s2) \<and>
      gerarRefreshToken repo_exemplo u s2 = (Inr rt, s3)" for u s1
    by (simp add: repo_exemplo_def repositorio_def)
  have look: "buscarPorEmail repo_exemplo (JStr ''ana@ong.org'') [ana] = (Inr (Some ana), [ana])"
    "buscarPorEmail repo_exemplo (JStr ''bia@ong.org'') [ana] = (Inr None, [ana])"
    by (simp_all add: repo_exemplo_def repositorio_def campo_def ana_def)
  have tok: "gerarToken repo_exemplo ana [ana] = (Inr ''access:ana@ong.org'', [ana])"
    "gerarRefreshToken repo_exemplo ana [ana] = (Inr ''refresh:ana@ong.org'', [ana])"
    by (simp_all add: repo_exemplo_def repositorio_def emitir_exemplo_def campo_def ana_def)
  have c: "campo ?ok ''email'' = JStr ''ana@ong.org''" "campo ?ok ''senha'' = JStr ''s3nha''"
    "campo ?bad ''email'' = JStr ''ana@ong.org''" "campo ?bad ''senha'' = JStr ''S3NHA''"
    "campo ?who ''email'' = JStr ''bia@ong.org''" "campo ana ''senha'' = JStr ''s3nha''"
    by (simp_all add: campo_def ana_def)
  have 1: "fst (login repo_exemplo ?ok [ana]) =
     Inr (Some \<lparr>token = ''access:ana@ong.org'', usuario = perfil_publico ana,
                refreshToken = ''refresh:ana@ong.org''\<rparr>)"
    using login_succeeds_iff [of repo_exemplo ?ok "[ana]", OF emits] look tok
    by (simp add: c)
  have 2: "\<exists>e. fst (login repo_exemplo ?bad [ana]) = Inl e"
    using login_succeeds_iff [of repo_exemplo ?bad "[ana]", OF emits] look
    by (simp add: c)
  have 3: "\<exists>e. fst (login repo_exemplo ?who [ana]) = Inl e"
    using login_succeeds_iff [of repo_exemplo ?who "[ana]", OF emits] look
    by (simp add: c)
  from 1 2 3 show ?thesis by (intro conjI)
qed

section \<open>Refresh\<close>

text \<open>
  C4. When \<^verbatim>\<open>verify\<close> throws on the presented token, whatever it throws (a
  malformed token, a bad signature, an expired token), \<open>refreshToken\<close> rejects with
  \<open>Error msg_refresh\<close>: the thrown value does not reach the caller.
\<close>

theorem refreshToken_verify_failure:
  assumes "verify rt (SECRET_REFRESH ev) = Inl e"
  shows "refreshToken verify ev r rt s = (Inl (Error msg_refresh), s)"
  using assms by (simp add: refreshToken_def refreshToken_try_def)

theorem refreshToken_verify_failure_witness:
  "verify_exemplo ''expired'' (SECRET_REFRESH env_exemplo) = Inl (Exn ''TokenExpiredError'' ''jwt expired'') \<and>
   refreshToken verify_exemplo env_exemplo repo_exemplo ''expired'' [ana] = (Inl (Error msg_refresh), [ana]) \<and>
   verify_exemplo ''x.y'' (SECRET_REFRESH env_exemplo) = Inl (Exn ''JsonWebTokenError'' ''jwt malformed'') \<and>
   refreshToken verify_exemplo env_exemplo repo_exemplo ''x.y'' [ana] = (Inl (Error msg_refresh), [ana]) \<and>
   verify_exemplo ''refresh:ana@ong.org'' (SECRET_REFRESH \<lparr>SECRET_REFRESH = Some ''outro''\<rparr>)
     = Inl (Exn ''JsonWebTokenError'' ''invalid signature'') \<and>
   refreshToken verify_exemplo \<lparr>SECRET_REFRESH = Some ''outro''\<rparr> repo_exemplo ''refresh:ana@ong.org'' [ana]
     = (Inl (Error msg_refresh), [ana])"
proof -
  have a: "verify_exemplo ''expired'' (SECRET_REFRESH env_exemplo) = Inl (Exn ''TokenExpiredError'' ''jwt expired'')"
    by (simp add: verify_exemplo_def env_exemplo_def)
  have b: "verify_exemplo ''x.y'' (SECRET_REFRESH env_exemplo) = Inl (Exn ''JsonWebTokenError'' ''jwt malformed'')"
    by (simp add: verify_exemplo_def env_exemplo_def)
  have c: "verify_exemplo ''refresh:ana@ong.org'' (SECRET_REFRESH \<lparr>SECRET_REFRESH = Some ''outro''\<rparr>)
     = Inl (Exn ''JsonWebTokenError'' ''invalid signature'')"
    by (simp add: verify_exemplo_def)
  show ?thesis
    using a b c
      refreshToken_verify_failure [of verify_exemplo "''expired''" env_exemplo _ repo_exemplo "[ana]", OF a]
      refreshToken_verify_failure [of verify_exemplo "''x.y''" env_exemplo _ repo_exemplo "[ana]", OF b]
      refreshToken_verify_failure [of verify_exemplo "''refresh:ana@ong.org''"
        "\<lparr>SECRET_REFRESH = Some ''outro''\<rparr>" _ repo_exemplo "[ana]", OF c]
    by (intro conjI)
qed

text \<open>
  C1. The presented token verifies and carries the email \<^verbatim>\<open>ana@ong.org\<close>, and the
  table holds no row any more: \<open>refreshToken\<close> does not reject, it resolves with
  \<^verbatim>\<open>undefined\<close>.
\<close>

theorem refreshToken_user_missing_undefined:
  "verify_exemplo ''refresh:ana@ong.org'' (SECRET_REFRESH env_exemplo) =
     Inr \<lparr>decoded.usuario = Some [(''id'', JNum 7), (''email'', JStr ''ana@ong.org''),
                                  (''nome'', JStr ''Ana''), (''perfil'', JStr ''staff'')]\<rparr> \<and>
   buscarPorEmail repo_exemplo (JStr ''ana@ong.org'') [] = (Inr None, []) \<and>
   refreshToken verify_exemplo env_exemplo repo_exemplo ''refresh:ana@ong.org'' [] = (Inr None, []) \<and>
   fst (refreshToken verify_exemplo env_exemplo repo_exemplo ''refresh:ana@ong.org'' [])
     \<noteq> Inl (Error msg_refresh)"
  by (simp add: refreshToken_def refreshToken_try_def verify_exemplo_def env_exemplo_def
      repo_exemplo_def repositorio_def campo_def)

text \<open>
  C6. Whenever \<open>refreshToken\<close> resolves with a session, the presented token was
  verified, the email was read from its payload, the lookup by that email resolved
  with a row, and the profile of the session and the arguments of the two token
  generators are that row: the fields returned are the stored ones, not those of the
  payload.
\<close>

theorem refreshToken_fresh_lookup:
  assumes "refreshToken verify ev r rt s = (Inr (Some b), s')"
  shows "\<exists>d p u s1 s2. verify rt (SECRET_REFRESH ev) = Inr d \<and> decoded.usuario d = Some p \<and>
     buscarPorEmail r (campo p ''email'') s = (Inr (Some u), s1) \<and>
     gerarToken r u s1 = (Inr (token b), s2) \<and>
     gerarRefreshToken r u s2 = (Inr (sessao.refreshToken b), s') \<and>
     sessao.usuario b = [(''id'', campo u ''id''), (''email'', campo u ''email''),
                         (''nome'', campo u ''nome''), (''perfil'', campo u ''perfil'')]"
proof -
  from assms obtain d p u s1 where d: "verify rt (SECRET_REFRESH ev) = Inr d"
    "decoded.usuario d = Some p" "buscarPorEmail r (campo p ''email'') s = (Inr (Some u), s1)"
    and m: "montar_sessao r u s1 = (Inr b, s')"
    unfolding refreshToken_Inr refreshToken_try_Some by blast
  from m obtain t s2 rt' where "gerarToken r u s1 = (Inr t, s2)"
    "gerarRefreshToken r u s2 = (Inr rt', s')"
    "b = \<lparr>token = t, usuario = perfil_publico u, refreshToken = rt'\<rparr>"
    unfolding montar_sessao_Inr by blast
  with d show ?thesis by (auto simp: perfil_publico_def)
qed

theorem refreshToken_fresh_lookup_witness:
  "refreshToken verify_exemplo env_exemplo repo_exemplo ''refresh:ana@ong.org'' [ana] =
     (Inr (Some \<lparr>token = ''access:ana@ong.org'',
                 usuario = [(''id'', JNum 7), (''email'', JStr ''ana@ong.org''),
                            (''nome'', JStr ''Ana''), (''perfil'', JStr ''admin'')],
                 refreshToken = ''refresh:ana@ong.org''\<rparr>), [ana]) \<and>
   (\<exists>d p u s1 s2. verify_exemplo ''refresh:ana@ong.org'' (SECRET_REFRESH env_exemplo) = Inr d \<and>
      decoded.usuario d = Some p \<and> campo p ''perfil'' = JStr ''staff'' \<and>
      buscarPorEmail repo_exemplo (campo p ''email'') [ana] = (Inr (Some u), s1) \<and>
      gerarToken repo_exemplo u s1 = (Inr ''access:ana@ong.org'', s2) \<and>
      gerarRefreshToken repo_exemplo u s2 = (Inr ''refresh:ana@ong.org'', [ana]) \<and>
      campo u ''perfil'' = JStr ''admin'')"
proof -
  let ?b = "\<lparr>token = ''access:ana@ong.org'',
             usuario = [(''id'', JNum 7), (''email'', JStr ''ana@ong.org''),
                        (''nome'', JStr ''Ana''), (''perfil'', JStr ''admin'')],
             refreshToken = ''refresh:ana@ong.org''\<rparr>"
  have run: "refreshToken verify_exemplo env_exemplo repo_exemplo ''refresh:ana@ong.org'' [ana] =
      (Inr (Some ?b), [ana])"
    by (simp add: refreshToken_def refreshToken_try_def montar_sessao_def perfil_publico_def
        verify_exemplo_def env_exemplo_def repo_exemplo_def repositorio_def emitir_exemplo_def
        campo_def ana_def)
  have v: "verify_exemplo ''refresh:ana@ong.org'' (SECRET_REFRESH env_exemplo) =
      Inr \<lparr>decoded.usuario = Some [(''id'', JNum 7), (''email'', JStr ''ana@ong.org''),
                                   (''nome'', JStr ''Ana''), (''perfil'', JStr ''staff'')]\<rparr>"
    by (simp add: verify_exemplo_def env_exemplo_def)
  from refreshToken_fresh_lookup [OF run]
  obtain d p u s1 s2 where w: "verify_exemplo ''refresh:ana@ong.org'' (SECRET_REFRESH env_exemplo) = Inr d"
    "decoded.usuario d = Some p"
    "buscarPorEmail repo_exemplo (campo p ''email'') [ana] = (Inr (Some u), s1)"
    "gerarToken repo_exemplo u s1 = (Inr (token ?b), s2)"
    "gerarRefreshToken repo_exemplo u s2 = (Inr (sessao.refreshToken ?b), [ana])"
    "sessao.usuario ?b = [(''id'', campo u ''id''), (''email'', campo u ''email''),
                         (''nome'', campo u ''nome''), (''perfil'', campo u ''perfil'')]"
    by blast
  from w(1,2) v have "campo p ''perfil'' = JStr ''staff''" by (auto simp: campo_def)
  moreover from w(6) have "campo u ''perfil'' = JStr ''admin''" by simp
  ultimately show ?thesis using run w by auto
qed

text \<open>
  C7. The profile of a session that \<open>login\<close> or \<open>refreshToken\<close> resolves with has
  the properties \<^verbatim>\<open>id\<close>, \<^verbatim>\<open>email\<close>, \<^verbatim>\<open>nome\<close> and \<^verbatim>\<open>perfil\<close> and no other:
  it has no \<^verbatim>\<open>senha\<close>, whatever the repository. With the repository of the spec,
  the two tokens of the session are issued from a claims payload that has these four
  properties and no other, the same object as the profile.
\<close>

theorem session_without_senha:
  "(login r c s = (Inr (Some b), s') \<or> refreshToken verify ev r rt s = (Inr (Some b), s') \<longrightarrow>
      keys (sessao.usuario b) = [''id'', ''email'', ''nome'', ''perfil''] \<and>
      ''senha'' \<notin> set (keys (sessao.usuario b)) \<and>
      campo (sessao.usuario b) ''senha'' = JUndefined) \<and>
   (login (repositorio_spec assinar cfg) c2 w = (Inr (Some b2), w') \<or>
    refreshToken verify2 ev2 (repositorio_spec assinar cfg) rt2 w = (Inr (Some b2), w') \<longrightarrow>
      (\<exists>p. keys p = [''id'', ''email'', ''nome'', ''perfil''] \<and>
           ''senha'' \<notin> set (keys p) \<and> p = sessao.usuario b2 \<and>
           token b2 = issue assinar (relogio w) p (accessSecret cfg) (accessTtl cfg) \<and>
           sessao.refreshToken b2 =
             issue assinar (relogio w) p (refreshSecret cfg) (refreshTtl cfg)))"
proof (intro conjI impI)
  assume "login r c s = (Inr (Some b), s') \<or> refreshToken verify ev r rt s = (Inr (Some b), s')"
  then obtain u where u: "sessao.usuario b = perfil_publico u"
    unfolding login_Some refreshToken_Inr refreshToken_try_Some montar_sessao_Inr by auto
  show "keys (sessao.usuario b) = [''id'', ''email'', ''nome'', ''perfil'']"
    and "''senha'' \<notin> set (keys (sessao.usuario b))"
    and "campo (sessao.usuario b) ''senha'' = JUndefined"
    by (simp_all add: u perfil_publico_def keys_def campo_def)
next
  let ?R = "repositorio_spec assinar cfg"
  assume "login ?R c2 w = (Inr (Some b2), w') \<or>
    refreshToken verify2 ev2 ?R rt2 w = (Inr (Some b2), w')"
  then obtain u w1 e where l: "buscarPorEmail ?R e w = (Inr (Some u), w1)"
    and m: "montar_sessao ?R u w1 = (Inr b2, w')"
    unfolding login_Some refreshToken_Inr refreshToken_try_Some by blast
  from l have "relogio w1 = relogio w" by (auto simp: repositorio_spec_simps)
  with m have b2: "b2 = \<lparr>token = issue assinar (relogio w) (claims_payload u) (accessSecret cfg) (accessTtl cfg),
           usuario = perfil_publico u,
           refreshToken = issue assinar (relogio w) (claims_payload u) (refreshSecret cfg) (refreshTtl cfg)\<rparr>"
    by (simp add: montar_sessao_spec)
  show "\<exists>p. keys p = [''id'', ''email'', ''nome'', ''perfil''] \<and>
           ''senha'' \<notin> set (keys p) \<and> p = sessao.usuario b2 \<and>
           token b2 = issue assinar (relogio w) p (accessSecret cfg) (accessTtl cfg) \<and>
           sessao.refreshToken b2 =
             issue assinar (relogio w) p (refreshSecret cfg) (refreshTtl cfg)"
    using claims_payload_keys [of u] by (intro exI [of _ "claims_payload u"]) (simp add: b2)
qed

theorem session_without_senha_witness:
  "campo ana ''senha'' = JStr ''s3nha'' \<and>
   login (repositorio_spec assinar_exemplo cfg_exemplo)
       [(''email'', JStr ''ana@ong.org''), (''senha'', JStr ''s3nha'')] mundo_exemplo =
     (Inr (Some \<lparr>token = ''id;email;nome;perfil;acc3ss'', usuario = perfil_publico ana,
                 refreshToken = ''id;email;nome;perfil;r3fresh''\<rparr>),
      mundo_exemplo\<lparr>chamadas := [Busca (JStr ''ana@ong.org''), Emite ana, EmiteRefresh ana]\<rparr>) \<and>
   refreshToken verify_exemplo env_exemplo (repositorio_spec assinar_exemplo cfg_exemplo)
       ''refresh:ana@ong.org'' mundo_exemplo =
     (Inr (Some \<lparr>token = ''id;email;nome;perfil;acc3ss'', usuario = perfil_publico ana,
                 refreshToken = ''id;email;nome;perfil;r3fresh''\<rparr>),
      mundo_exemplo\<lparr>chamadas := [Busca (JStr ''ana@ong.org''), Emite ana, EmiteRefresh ana]\<rparr>) \<and>
   keys (perfil_publico ana) = [''id'', ''email'', ''nome'', ''perfil''] \<and>
   ''senha'' \<notin> set (keys (perfil_publico ana)) \<and>
   campo (perfil_publico ana) ''senha'' = JUndefined \<and>
   (\<exists>p. keys p = [''id'', ''email'', ''nome'', ''perfil''] \<and> ''senha'' \<notin> set (keys p) \<and>
        p = perfil_publico ana \<and>
        ''id;email;nome;perfil;acc3ss'' = issue assinar_exemplo 1000 p ''acc3ss'' 3600 \<and>
        ''id;email;nome;perfil;r3fresh'' = issue assinar_exemplo 1000 p ''r3fresh'' 604800)"
proof -
  let ?R = "repositorio_spec assinar_exemplo cfg_exemplo"
  let ?c = "[(''email'', JStr ''ana@ong.org''), (''senha'', JStr ''s3nha'')]"
  let ?b = "\<lparr>token = ''id;email;nome;perfil;acc3ss'', usuario = perfil_publico ana,
             refreshToken = ''id;email;nome;perfil;r3fresh''\<rparr>"
  let ?w = "mundo_exemplo\<lparr>chamadas := [Busca (JStr ''ana@ong.org''), Emite ana, EmiteRefresh ana]\<rparr>"
  have s: "campo ana ''senha'' = JStr ''s3nha''" by (simp add: campo_def ana_def)
  have f: "find (\<lambda>u. campo u ''email'' = JStr ''ana@ong.org'') (usuarios mundo_exemplo) = Some ana"
    by (simp add: mundo_exemplo_def campo_def ana_def)
  have i: "issue assinar_exemplo 1000 (claims_payload ana) ''acc3ss'' 3600 = ''id;email;nome;perfil;acc3ss''"
    "issue assinar_exemplo 1000 (claims_payload ana) ''r3fresh'' 604800 = ''id;email;nome;perfil;r3fresh''"
    by (simp_all add: issue_def assinar_exemplo_def claims_payload_def keys_def)
  have g: "relogio mundo_exemplo = 1000" "chamadas mundo_exemplo = []"
    "accessSecret cfg_exemplo = ''acc3ss''" "refreshSecret cfg_exemplo = ''r3fresh''"
    "accessTtl cfg_exemplo = 3600" "refreshTtl cfg_exemplo = 604800"
    by (simp_all add: mundo_exemplo_def cfg_exemplo_def)
  have ce: "campo ?c ''email'' = JStr ''ana@ong.org''" "campo ?c ''senha'' = JStr ''s3nha''"
    "campo [(''id'', JNum 7), (''email'', JStr ''ana@ong.org''),
            (''nome'', JStr ''Ana''), (''perfil'', JStr ''staff'')] ''email'' = JStr ''ana@ong.org''"
    by (simp_all add: campo_def)
  have l: "login ?R ?c mundo_exemplo = (Inr (Some ?b), ?w)"
    by (simp add: login_def montar_sessao_spec repositorio_spec_simps ce f g i s)
  have v: "verify_exemplo ''refresh:ana@ong.org'' (SECRET_REFRESH env_exemplo) =
      Inr \<lparr>decoded.usuario = Some [(''id'', JNum 7), (''email'', JStr ''ana@ong.org''),
                                   (''nome'', JStr ''Ana''), (''perfil'', JStr ''staff'')]\<rparr>"
    by (simp add: verify_exemplo_def env_exemplo_def)
  have x: "refreshToken verify_exemplo env_exemplo ?R ''refresh:ana@ong.org'' mundo_exemplo =
      (Inr (Some ?b), ?w)"
    by (simp add: refreshToken_def refreshToken_try_def v montar_sessao_spec
        repositorio_spec_simps ce f g i)
  note th = session_without_senha [of ?R ?c mundo_exemplo ?b ?w verify_exemplo env_exemplo
      "''refresh:ana@ong.org''" assinar_exemplo cfg_exemplo ?c mundo_exemplo ?b ?w
      verify_exemplo env_exemplo "''refresh:ana@ong.org''"]
  from th l have 1: "keys (sessao.usuario ?b) = [''id'', ''email'', ''nome'', ''perfil''] \<and>
      ''senha'' \<notin> set (keys (sessao.usuario ?b)) \<and>
      campo (sessao.usuario ?b) ''senha'' = JUndefined"
    by blast
  from th x have 2: "\<exists>p. keys p = [''id'', ''email'', ''nome'', ''perfil''] \<and>
           ''senha'' \<notin> set (keys p) \<and> p = sessao.usuario ?b \<and>
           token ?b = issue assinar_exemplo (relogio mundo_exemplo) p
             (accessSecret cfg_exemplo) (accessTtl cfg_exemplo) \<and>
           sessao.refreshToken ?b = issue assinar_exemplo (relogio mundo_exemplo) p
             (refreshSecret cfg_exemplo) (refreshTtl cfg_exemplo)"
    by blast
  from 1 2 s l x show ?thesis by (simp add: g)
qed

text \<open>
  C9. Every point of the \<^verbatim>\<open>try\<close> block that can throw, \<^verbatim>\<open>verify\<close>, the read of
  \<^verbatim>\<open>decoded.usuario.email\<close>, the lookup in the credential store and the two token
  generators, ends in the same rejection: \<open>refreshToken\<close> rejects with
  \<open>Error msg_refresh\<close>, and the thrown value is dropped.
\<close>

theorem refreshToken_rethrows:
  assumes "verify rt (SECRET_REFRESH ev) = Inl e \<or>
     (\<exists>d. verify rt (SECRET_REFRESH ev) = Inr d \<and> decoded.usuario d = None) \<or>
     (\<exists>d p. verify rt (SECRET_REFRESH ev) = Inr d \<and> decoded.usuario d = Some p \<and>
        (fst (buscarPorEmail r (campo p ''email'') s) = Inl e \<or>
         (\<exists>u s1. buscarPorEmail r (campo p ''email'') s = (Inr (Some u), s1) \<and>
            (fst (gerarToken r u s1) = Inl e \<or>
             (\<exists>t s2. gerarToken r u s1 = (Inr t, s2) \<and>
                fst (gerarRefreshToken r u s2) = Inl e)))))"
  shows "fst (refreshToken verify ev r rt s) = Inl (Error msg_refresh)"
  using assms
  by (auto simp: refreshToken_def refreshToken_try_def montar_sessao_def
      split: prod.splits sum.splits option.splits)

theorem refreshToken_rethrows_witness:
  "verify_exemplo ''refresh:ana@ong.org'' (SECRET_REFRESH env_exemplo) =
     Inr \<lparr>decoded.usuario = Some [(''id'', JNum 7), (''email'', JStr ''ana@ong.org''),
                                  (''nome'', JStr ''Ana''), (''perfil'', JStr ''staff'')]\<rparr> \<and>
   fst (buscarPorEmail repo_sem_banco (JStr ''ana@ong.org'') [ana]) =
     Inl (Exn ''SequelizeConnectionError'' ''connect ECONNREFUSED'') \<and>
   fst (refreshToken verify_exemplo env_exemplo repo_sem_banco ''refresh:ana@ong.org'' [ana]) =
     Inl (Error msg_refresh)"
proof -
  let ?p = "[(''id'', JNum 7), (''email'', JStr ''ana@ong.org''),
             (''nome'', JStr ''Ana''), (''perfil'', JStr ''staff'')]"
  let ?e = "Exn ''SequelizeConnectionError'' ''connect ECONNREFUSED''"
  have v: "verify_exemplo ''refresh:ana@ong.org'' (SECRET_REFRESH env_exemplo) =
      Inr \<lparr>decoded.usuario = Some ?p\<rparr>"
    by (simp add: verify_exemplo_def env_exemplo_def)
  have k: "fst (buscarPorEmail repo_sem_banco (JStr ''ana@ong.org'') [ana]) = Inl ?e"
    by (simp add: repo_sem_banco_def)
  have p: "campo ?p ''email'' = JStr ''ana@ong.org''" by (simp add: campo_def)
  have "\<exists>d p. verify_exemplo ''refresh:ana@ong.org'' (SECRET_REFRESH env_exemplo) = Inr d \<and>
      decoded.usuario d = Some p \<and>
      (fst (buscarPorEmail repo_sem_banco (campo p ''email'') [ana]) = Inl ?e \<or>
       (\<exists>u s1. buscarPorEmail repo_sem_banco (campo p ''email'') [ana] = (Inr (Some u), s1) \<and>
          (fst (gerarToken repo_sem_banco u s1) = Inl ?e \<or>
           (\<exists>t s2. gerarToken repo_sem_banco u s1 = (Inr t, s2) \<and>
              fst (gerarRefreshToken repo_sem_banco u s2) = Inl ?e))))"
    using v k p by simp
  then have "fst (refreshToken verify_exemplo env_exemplo repo_sem_banco ''refresh:ana@ong.org'' [ana]) =
      Inl (Error msg_refresh)"
    by (intro refreshToken_rethrows [of verify_exemplo "''refresh:ana@ong.org''" env_exemplo ?e
          repo_sem_banco "[ana]"] disjI2)
  with v k show ?thesis by (intro conjI)
qed

section \<open>Effects\<close>

text \<open>
  C8. Run on the repository of the spec, \<open>login\<close> and \<open>refreshToken\<close> leave the
  world as they found it but for the calls they made to the repository: the rows of
  the credential store and everything else are unchanged, whether the method resolves
  or rejects, and the calls are one lookup, or one lookup followed by the issuing of
  the access token and of the refresh token for a row of the store (or, for
  \<open>refreshToken\<close>, no call at all).
\<close>

theorem service_effects:
  "(\<exists>evs. snd (login (repositorio_spec assinar cfg) c w) = w\<lparr>chamadas := chamadas w @ evs\<rparr> \<and>
      usuarios (snd (login (repositorio_spec assinar cfg) c w)) = usuarios w \<and>
      (evs = [Busca (campo c ''email'')] \<or>
       (\<exists>u. u \<in> set (usuarios w) \<and>
          evs = [Busca (campo c ''email''), Emite u, EmiteRefresh u]))) \<and>
   (\<exists>evs. snd (refreshToken verify ev (repositorio_spec assinar cfg) rt w) =
        w\<lparr>chamadas := chamadas w @ evs\<rparr> \<and>
      usuarios (snd (refreshToken verify ev (repositorio_spec assinar cfg) rt w)) = usuarios w \<and>
      (evs = [] \<or> (\<exists>e. evs = [Busca e]) \<or>
       (\<exists>e u. u \<in> set (usuarios w) \<and> evs = [Busca e, Emite u, EmiteRefresh u])))"
proof (intro conjI)
  let ?R = "repositorio_spec assinar cfg"
  have found: "u \<in> set xs" if "find P xs = Some u" for P and u :: jsobj and xs
    using that by (auto simp: find_Some_iff)
  show "\<exists>evs. snd (login ?R c w) = w\<lparr>chamadas := chamadas w @ evs\<rparr> \<and>
      usuarios (snd (login ?R c w)) = usuarios w \<and>
      (evs = [Busca (campo c ''email'')] \<or>
       (\<exists>u. u \<in> set (usuarios w) \<and>
          evs = [Busca (campo c ''email''), Emite u, EmiteRefresh u]))"
  proof (cases "find (\<lambda>u. campo u ''email'' = campo c ''email'') (usuarios w)")
    case None
    then show ?thesis
      by (intro exI [of _ "[Busca (campo c ''email'')]"])
        (simp add: login_def repositorio_spec_simps)
  next
    case (Some u)
    show ?thesis
    proof (cases "campo u ''senha'' = campo c ''senha''")
      case True
      with Some found [OF Some] show ?thesis
        by (intro exI [of _ "[Busca (campo c ''email''), Emite u, EmiteRefresh u]"])
          (simp add: login_def repositorio_spec_simps montar_sessao_spec)
    next
      case False
      with Some show ?thesis
        by (intro exI [of _ "[Busca (campo c ''email'')]"])
          (simp add: login_def repositorio_spec_simps)
    qed
  qed
  show "\<exists>evs. snd (refreshToken verify ev ?R rt w) = w\<lparr>chamadas := chamadas w @ evs\<rparr> \<and>
      usuarios (snd (refreshToken verify ev ?R rt w)) = usuarios w \<and>
      (evs = [] \<or> (\<exists>e. evs = [Busca e]) \<or>
       (\<exists>e u. u \<in> set (usuarios w) \<and> evs = [Busca e, Emite u, EmiteRefresh u]))"
  proof (cases "verify rt (SECRET_REFRESH ev)")
    case (Inl x)
    then show ?thesis
      by (intro exI [of _ "[]"]) (simp add: refreshToken_def refreshToken_try_def)
  next
    case (Inr d)
    show ?thesis
    proof (cases "decoded.usuario d")
      case None
      with Inr show ?thesis
        by (intro exI [of _ "[]"]) (simp add: refreshToken_def refreshToken_try_def)
    next
      case p: (Some p)
      show ?thesis
      proof (cases "find (\<lambda>u. campo u ''email'' = campo p ''email'') (usuarios w)")
        case None
        with Inr p show ?thesis
          by (intro exI [of _ "[Busca (campo p ''email'')]"])
            (simp add: refreshToken_def refreshToken_try_def repositorio_spec_simps)
      next
        case (Some u)
        with Inr p found [OF Some] show ?thesis
          by (intro exI [of _ "[Busca (campo p ''email''), Emite u, EmiteRefresh u]"])
            (auto simp add: refreshToken_def refreshToken_try_def repositorio_spec_simps
              montar_sessao_spec)
      qed
    qed
  qed
qed

end
